theory Spec2Isabelle
  imports Complex_Main
begin

section \<open>The SIR epidemic simulation: Person and Population\<close>

text \<open>
  A shallow embedding of \<^verbatim>\<open>Person.cpp\<close> and \<^verbatim>\<open>Population.cpp\<close>.

  \<^item> A C++ object mutated in place is a record passed in and returned updated.
  \<^item> The \<^verbatim>\<open>int\<close> fields are modelled as unbounded integers. The only arithmetic the
    code does on them is \<^verbatim>\<open>infectionDays--\<close> on a positive countdown, \<^verbatim>\<open>day++\<close> and
    \<^verbatim>\<open>count++\<close> up to the population size, so no value computed from a constructed
    object leaves the range of \<^verbatim>\<open>int\<close> (apart from \<^verbatim>\<open>day\<close> after \<open>2^31\<close> calls).
  \<^item> The \<^verbatim>\<open>float\<close> probability is modelled as a real number: the code only stores it and
    compares it with \<^verbatim>\<open><=\<close>.
  \<^item> The health state is the \<^verbatim>\<open>std::string\<close> of the source.
  \<^item> A \<^verbatim>\<open>throw\<close> is the left injection of a sum; it carries the exception and the state
    of the object at the moment of the throw.
\<close>

subsection \<open>Errors\<close>

datatype error =
    InvalidArgument      \<comment> \<open>\<^verbatim>\<open>std::invalid_argument\<close>, thrown by \<^verbatim>\<open>Person::infect\<close>\<close>
  | LengthError          \<comment> \<open>\<^verbatim>\<open>std::length_error\<close>, thrown by \<^verbatim>\<open>vector::reserve\<close>\<close>
  | UndefinedBehaviour   \<comment> \<open>a violated precondition of the standard library\<close>

type_synonym 's result = "(error \<times> 's) + 's"

subsection \<open>Person\<close>

record Person =
  infectionDays :: int
  current :: string

definition Person_ctor :: Person where
  "Person_ctor = \<lparr>infectionDays = 0, current = ''susceptible''\<rparr>"

definition isRecovered :: "Person \<Rightarrow> bool" where
  "isRecovered p = (current p = ''recovered'')"

definition isInfected :: "Person \<Rightarrow> bool" where
  "isInfected p = (current p = ''sick'')"

definition isSusceptible :: "Person \<Rightarrow> bool" where
  "isSusceptible p = (current p = ''susceptible'')"

definition getStatus :: "Person \<Rightarrow> string" where
  "getStatus p = current p"

definition getRemainingInfectionDays :: "Person \<Rightarrow> int" where
  "getRemainingInfectionDays p = infectionDays p"

definition updateState :: "Person \<Rightarrow> Person" where
  "updateState p =
     (if current p = ''sick'' then
        (let p1 = p\<lparr>infectionDays := infectionDays p - 1\<rparr>
         in if infectionDays p1 \<le> 0
            then p1\<lparr>current := ''recovered'', infectionDays := 0\<rparr>
            else p1)
      else p)"

definition infect :: "int \<Rightarrow> Person \<Rightarrow> Person result" where
  "infect duration p =
     (if duration \<le> 0 then Inl (InvalidArgument, p)
      else if current p = ''susceptible''
           then Inr (p\<lparr>infectionDays := duration, current := ''sick''\<rparr>)
           else Inr p)"

text \<open>The state of the object once the call is over, whether it returned or threw.\<close>

definition state_after :: "'s result \<Rightarrow> 's" where
  "state_after r = (case r of Inl (e, s) \<Rightarrow> s | Inr s \<Rightarrow> s)"

text \<open>A caller's sequence of calls on one person; an exception is caught and the
  sequence goes on with the object as the throw left it.\<close>

datatype person_call = CallUpdateState | CallInfect int

fun person_step :: "person_call \<Rightarrow> Person \<Rightarrow> Person" where
  "person_step CallUpdateState p = updateState p"
| "person_step (CallInfect d) p = state_after (infect d p)"

fun person_run :: "person_call list \<Rightarrow> Person \<Rightarrow> Person" where
  "person_run [] p = p"
| "person_run (c # cs) p = person_run cs (person_step c p)"

text \<open>The persons a program can build: constructed, then changed by calls that
  complete (\<^verbatim>\<open>infect\<close> with a positive duration, \<^verbatim>\<open>updateState\<close>).\<close>

inductive person_reachable :: "Person \<Rightarrow> bool" where
  reach_ctor: "person_reachable Person_ctor"
| reach_infect: "person_reachable p \<Longrightarrow> infect d p = Inr q \<Longrightarrow> person_reachable q"
| reach_update: "person_reachable p \<Longrightarrow> person_reachable (updateState p)"

subsection \<open>Random numbers\<close>

text \<open>
  The outcomes of a \<^verbatim>\<open>std::mt19937\<close> are not computed: a generator is a tape of
  outcomes for integer draws, a tape for real draws, and how many of each were drawn.
  Every sequence of outcomes in range is the outcome of some tape, and no other is.
\<close>

record mt19937 =
  intTape :: "nat \<Rightarrow> nat"
  realTape :: "nat \<Rightarrow> real"
  intDraws :: nat
  realDraws :: nat

text \<open>\<^verbatim>\<open>std::uniform_int_distribution<>(a, b)(gen)\<close>, for \<open>a \<le> b\<close>: a value of \<open>[a, b]\<close>.\<close>

definition uniform_int_distribution :: "int \<Rightarrow> int \<Rightarrow> mt19937 \<Rightarrow> int \<times> mt19937" where
  "uniform_int_distribution a b g =
     (a + int (intTape g (intDraws g)) mod (b - a + 1), g\<lparr>intDraws := Suc (intDraws g)\<rparr>)"

text \<open>\<^verbatim>\<open>std::uniform_real_distribution<float>(0.0, 1.0)(gen)\<close>: a value of \<open>[0, 1)\<close>.\<close>

definition uniform_real_distribution :: "mt19937 \<Rightarrow> real \<times> mt19937" where
  "uniform_real_distribution g =
     (frac (realTape g (realDraws g)), g\<lparr>realDraws := Suc (realDraws g)\<rparr>)"

text \<open>\<^verbatim>\<open>std::random_device rd; std::mt19937 gen(rd());\<close>: the environment hands out one
  fresh generator per request.\<close>

record random_device =
  seeds :: "nat \<Rightarrow> (nat \<Rightarrow> nat) \<times> (nat \<Rightarrow> real)"
  seedsUsed :: nat

definition mt19937_ctor :: "random_device \<Rightarrow> mt19937 \<times> random_device" where
  "mt19937_ctor rd =
     (\<lparr>intTape = fst (seeds rd (seedsUsed rd)), realTape = snd (seeds rd (seedsUsed rd)),
       intDraws = 0, realDraws = 0\<rparr>,
      rd\<lparr>seedsUsed := Suc (seedsUsed rd)\<rparr>)"

subsection \<open>Population\<close>

text \<open>The field \<^verbatim>\<open>size\<close> is written \<open>size'\<close>. A \<^verbatim>\<open>Person*\<close> into the vector is the
  index of its element.\<close>

record Population =
  size' :: int
  day :: int
  countInfected :: int
  countSusceptible :: int
  countRecovered :: int
  infectionProbability :: real
  contactsPerDay :: int
  infectionDuration :: int
  population :: "Person list"

text \<open>\<^verbatim>\<open>population.reserve(populationSize)\<close> converts a negative size to a huge
  \<^verbatim>\<open>size_t\<close> and throws \<^verbatim>\<open>std::length_error\<close>; no object is built then.\<close>

definition Population_ctor :: "int \<Rightarrow> error + Population" where
  "Population_ctor populationSize =
     (if populationSize < 0 then Inl LengthError
      else Inr \<lparr>size' = populationSize, day = 0, countInfected = 0,
                countSusceptible = populationSize, countRecovered = 0,
                infectionProbability = 0, contactsPerDay = 0, infectionDuration = 0,
                population = replicate (nat populationSize) Person_ctor\<rparr>)"

definition setInfectionProbability :: "real \<Rightarrow> Population \<Rightarrow> Population" where
  "setInfectionProbability probability p = p\<lparr>infectionProbability := probability\<rparr>"

definition setContactsPerDay :: "int \<Rightarrow> Population \<Rightarrow> Population" where
  "setContactsPerDay contacts p = p\<lparr>contactsPerDay := contacts\<rparr>"

definition setInfectionDuration :: "int \<Rightarrow> Population \<Rightarrow> Population" where
  "setInfectionDuration days p = p\<lparr>infectionDuration := days\<rparr>"

definition getCurrentDay :: "Population \<Rightarrow> int" where
  "getCurrentDay p = day p"

definition getPopulationSize :: "Population \<Rightarrow> int" where
  "getPopulationSize p = size' p"

definition getSusceptibleCount :: "Population \<Rightarrow> int" where
  "getSusceptibleCount p = countSusceptible p"

definition getInfectedCount :: "Population \<Rightarrow> int" where
  "getInfectedCount p = countInfected p"

definition getRecoveredCount :: "Population \<Rightarrow> int" where
  "getRecoveredCount p = countRecovered p"

text \<open>\<^verbatim>\<open>infectPerson(person)\<close>, the person given by its index \<open>k\<close>.\<close>

definition infectPerson :: "nat \<Rightarrow> Population \<Rightarrow> Population result" where
  "infectPerson k p =
     (case infect (infectionDuration p) (population p ! k) of
        Inl (e, q) \<Rightarrow> Inl (e, p)
      | Inr q \<Rightarrow> Inr (p\<lparr>population := (population p)[k := q]\<rparr>))"

text \<open>\<^verbatim>\<open>dis(0, size - 1)\<close> needs \<open>0 \<le> size - 1\<close>, and \<^verbatim>\<open>population[index]\<close> an index
  inside the vector; both are undefined behaviour otherwise.\<close>

definition infectRandomPerson :: "random_device \<Rightarrow> Population \<Rightarrow> Population result" where
  "infectRandomPerson rd p =
     (let (gen, rd1) = mt19937_ctor rd
      in if size' p - 1 < 0 then Inl (UndefinedBehaviour, p)
         else (let (index, gen1) = uniform_int_distribution 0 (size' p - 1) gen
               in if length (population p) \<le> nat index then Inl (UndefinedBehaviour, p)
                  else infectPerson (nat index) p))"

text \<open>The loop of \<^verbatim>\<open>simulateTransmission\<close>, from its counter \<open>i\<close> on. \<open>newlyInfected\<close>
  holds the indices of the persons pushed so far; the real draw is made only when the
  contact is susceptible (\<^verbatim>\<open>&&\<close> is short-circuit).\<close>

function transmissionLoop ::
  "int \<Rightarrow> Population \<Rightarrow> mt19937 \<Rightarrow> nat list \<Rightarrow> nat list \<times> mt19937" where
  "transmissionLoop i p gen newlyInfected =
     (if i < contactsPerDay p \<and> i < int (length (population p)) - 1 then
        (let (contactIndex, gen1) =
               uniform_int_distribution 0 (int (length (population p)) - 1) gen;
             contactPerson = population p ! nat contactIndex
         in if isSusceptible contactPerson then
              (let (u, gen2) = uniform_real_distribution gen1
               in if u \<le> infectionProbability p
                  then transmissionLoop (i + 1) p gen2 (newlyInfected @ [nat contactIndex])
                  else transmissionLoop (i + 1) p gen2 newlyInfected)
            else transmissionLoop (i + 1) p gen1 newlyInfected)
      else (newlyInfected, gen))"
  by pat_completeness auto
termination
  by (relation "measure (\<lambda>(i, p, gen, newlyInfected). nat (contactsPerDay p - i))") auto

definition simulateTransmission ::
  "Population \<Rightarrow> random_device \<Rightarrow> nat list \<Rightarrow> nat list \<times> random_device" where
  "simulateTransmission p rd newlyInfected =
     (let (gen, rd1) = mt19937_ctor rd
      in (fst (transmissionLoop 0 p gen newlyInfected), rd1))"

text \<open>The first loop of \<^verbatim>\<open>simulateOneDay\<close>, from the person of index \<open>i\<close> on.\<close>

function dayLoop ::
  "nat \<Rightarrow> Population \<Rightarrow> random_device \<Rightarrow> nat list \<Rightarrow> Population \<times> random_device \<times> nat list"
  where
  "dayLoop i p rd newlyInfected =
     (if i < length (population p) then
        (let person = population p ! i;
             (newly1, rd1) = (if isInfected person then simulateTransmission p rd newlyInfected
                              else (newlyInfected, rd))
         in dayLoop (Suc i) (p\<lparr>population := (population p)[i := updateState person]\<rparr>)
              rd1 newly1)
      else (p, rd, newlyInfected))"
  by pat_completeness auto
termination
  by (relation "measure (\<lambda>(i, p, rd, newlyInfected). length (population p) - i)") auto

text \<open>The second loop of \<^verbatim>\<open>simulateOneDay\<close>: the first throw ends it.\<close>

fun infectLoop :: "nat list \<Rightarrow> Population \<Rightarrow> Population result" where
  "infectLoop [] p = Inr p"
| "infectLoop (k # ks) p =
     (case infectPerson k p of Inl e \<Rightarrow> Inl e | Inr p1 \<Rightarrow> infectLoop ks p1)"

fun countLoop :: "Person list \<Rightarrow> Population \<Rightarrow> Population" where
  "countLoop [] p = p"
| "countLoop (person # rest) p =
     countLoop rest
       (if isInfected person then p\<lparr>countInfected := countInfected p + 1\<rparr>
        else if isSusceptible person then p\<lparr>countSusceptible := countSusceptible p + 1\<rparr>
        else if isRecovered person then p\<lparr>countRecovered := countRecovered p + 1\<rparr>
        else p)"

definition updateCounts :: "Population \<Rightarrow> Population" where
  "updateCounts p =
     countLoop (population p) (p\<lparr>countInfected := 0, countSusceptible := 0, countRecovered := 0\<rparr>)"

definition simulateOneDay :: "random_device \<Rightarrow> Population \<Rightarrow> Population result" where
  "simulateOneDay rd p =
     (let (p1, rd1, newlyInfected) = dayLoop 0 p rd []
      in case infectLoop newlyInfected p1 of
           Inl e \<Rightarrow> Inl e
         | Inr p2 \<Rightarrow> Inr (updateCounts (p2\<lparr>day := day p2 + 1\<rparr>)))"

subsection \<open>Reachable populations\<close>

text \<open>The populations a driver can observe: constructed, then changed by any sequence of
  setter, seeding and day-advance calls, each with whatever the random device yields.
  A call that throws \<^verbatim>\<open>std::invalid_argument\<close> leaves an object the driver can go on
  using after catching the exception.\<close>

inductive pop_reachable :: "Population \<Rightarrow> bool" where
  reach_new: "Population_ctor n = Inr p \<Longrightarrow> pop_reachable p"
| reach_setProbability: "pop_reachable p \<Longrightarrow> pop_reachable (setInfectionProbability x p)"
| reach_setContacts: "pop_reachable p \<Longrightarrow> pop_reachable (setContactsPerDay c p)"
| reach_setDuration: "pop_reachable p \<Longrightarrow> pop_reachable (setInfectionDuration d p)"
| reach_seed: "pop_reachable p \<Longrightarrow> infectRandomPerson rd p = Inr q \<Longrightarrow> pop_reachable q"
| reach_seed_throw:
    "pop_reachable p \<Longrightarrow> infectRandomPerson rd p = Inl (InvalidArgument, q) \<Longrightarrow> pop_reachable q"
| reach_day: "pop_reachable p \<Longrightarrow> simulateOneDay rd p = Inr q \<Longrightarrow> pop_reachable q"
| reach_day_throw:
    "pop_reachable p \<Longrightarrow> simulateOneDay rd p = Inl (InvalidArgument, q) \<Longrightarrow> pop_reachable q"

text \<open>The partition of the members by state, counted from the vector itself.\<close>

definition members_where :: "(Person \<Rightarrow> bool) \<Rightarrow> Population \<Rightarrow> int" where
  "members_where P p = int (length (filter P (population p)))"

subsection \<open>Concrete inputs\<close>

text \<open>A random device all of whose generators draw the integer outcome \<open>k\<close> and the real
  outcome \<open>u\<close> every time.\<close>

definition constant_device :: "nat \<Rightarrow> real \<Rightarrow> random_device" where
  "constant_device k u = \<lparr>seeds = (\<lambda>n. ((\<lambda>m. k), (\<lambda>m. u))), seedsUsed = 0\<rparr>"

definition constant_gen :: "nat \<Rightarrow> real \<Rightarrow> mt19937" where
  "constant_gen k u = \<lparr>intTape = (\<lambda>m. k), realTape = (\<lambda>m. u), intDraws = 0, realDraws = 0\<rparr>"

definition sick_for :: "int \<Rightarrow> Person" where
  "sick_for d = \<lparr>infectionDays = d, current = ''sick''\<rparr>"

definition recovered_person :: Person where
  "recovered_person = \<lparr>infectionDays = 0, current = ''recovered''\<rparr>"

text \<open>A two-person population as a driver builds it: constructed, configured, and seeded
  with a device whose draw picks member 0. Member 0 is sick, member 1 susceptible.\<close>

definition seeded :: "real \<Rightarrow> int \<Rightarrow> int \<Rightarrow> Population" where
  "seeded probability contacts duration =
     state_after (infectRandomPerson (constant_device 0 0)
       (setInfectionProbability probability (setInfectionDuration duration
          (setContactsPerDay contacts (projr (Population_ctor 2))))))"

subsection \<open>Notions the properties are stated with\<close>

text \<open>The vector \<^verbatim>\<open>newlyInfected\<close> at the end of the first loop of \<^verbatim>\<open>simulateOneDay\<close>
  (the members selected for transmission that day), and the population at that point
  (every member's \<^verbatim>\<open>updateState\<close> done, no new infection applied yet).\<close>

definition selected_today :: "random_device \<Rightarrow> Population \<Rightarrow> nat list" where
  "selected_today rd p = snd (snd (dayLoop 0 p rd []))"

definition after_updates :: "random_device \<Rightarrow> Population \<Rightarrow> Population" where
  "after_updates rd p = fst (dayLoop 0 p rd [])"

text \<open>An index that \<^verbatim>\<open>simulateTransmission\<close> may push: inside the vector, of a
  susceptible member.\<close>

definition selectable :: "Population \<Rightarrow> nat \<Rightarrow> bool" where
  "selectable p k = (k < length (population p) \<and> isSusceptible (population p ! k))"

text \<open>The string \<^verbatim>\<open>current\<close> is one of the three states.\<close>

definition valid_status :: "Person \<Rightarrow> bool" where
  "valid_status x = (isSusceptible x \<or> isInfected x \<or> isRecovered x)"

text \<open>The invariant of the class: \<^verbatim>\<open>size\<close> is the length of the vector, the three cached
  counts add up to it, and every member is in one of the three states.\<close>

definition pop_inv :: "Population \<Rightarrow> bool" where
  "pop_inv p =
     (size' p = int (length (population p)) \<and>
      countSusceptible p + countInfected p + countRecovered p = size' p \<and>
      list_all valid_status (population p))"

text \<open>The recursive equations of the two loops are unfolded by hand.\<close>

declare transmissionLoop.simps [simp del]
declare dayLoop.simps [simp del]

section \<open>Properties of Person\<close>

lemma infect_nonpositive: "d \<le> 0 \<Longrightarrow> infect d p = Inl (InvalidArgument, p)"
  by (simp add: infect_def)

lemma infect_positive:
  "0 < d \<Longrightarrow> infect d p =
     Inr (if current p = ''susceptible'' then p\<lparr>infectionDays := d, current := ''sick''\<rparr> else p)"
  by (simp add: infect_def)

lemma state_after_infect_not_susceptible:
  "current p \<noteq> ''susceptible'' \<Longrightarrow> state_after (infect d p) = p"
  by (simp add: infect_def state_after_def)

lemma updateState_not_sick: "current p \<noteq> ''sick'' \<Longrightarrow> updateState p = p"
  by (simp add: updateState_def)

text \<open>
  \<^bold>\<open>C6.\<close> For a person in any state, \<^verbatim>\<open>infect(duration)\<close> with \<open>duration \<le> 0\<close> throws
  \<^verbatim>\<open>std::invalid_argument\<close> and leaves the person as it was, whatever its state (the
  check comes before the state check); with \<open>duration > 0\<close> it never throws.
\<close>

theorem C6_infect_validation:
  "(d \<le> 0 \<longrightarrow> infect d p = Inl (InvalidArgument, p) \<and> state_after (infect d p) = p) \<and>
   (0 < d \<longrightarrow> (\<exists>q. infect d p = Inr q))"
  by (simp add: infect_def state_after_def)

theorem C6_infect_validation_witness:
  "infect 0 Person_ctor = Inl (InvalidArgument, Person_ctor) \<and>
   infect (- 1) (sick_for 2) = Inl (InvalidArgument, sick_for 2) \<and>
   state_after (infect (- 1) recovered_person) = recovered_person \<and>
   (\<exists>q. infect 5 Person_ctor = Inr q)"
  using C6_infect_validation [of 0 Person_ctor] C6_infect_validation [of "- 1" "sick_for 2"]
    C6_infect_validation [of "- 1" recovered_person] C6_infect_validation [of 5 Person_ctor]
  by (simp add: state_after_def)

text \<open>
  \<^bold>\<open>C8.\<close> After construction and after every completed call of \<^verbatim>\<open>infect\<close> (positive
  duration) and \<^verbatim>\<open>updateState\<close>, a person is infected exactly when its remaining days
  are positive, and the remaining days are never negative. An infected person whose
  countdown reaches 0 in \<^verbatim>\<open>updateState\<close> comes out recovered, with remaining days 0.
\<close>

theorem C8_person_invariant:
  assumes "person_reachable p"
  shows "(isInfected p \<longleftrightarrow> 0 < infectionDays p) \<and> 0 \<le> infectionDays p \<and>
         (isInfected p \<and> infectionDays p - 1 \<le> 0 \<longrightarrow>
            isRecovered (updateState p) \<and> infectionDays (updateState p) = 0)"
  using assms
proof (induction rule: person_reachable.induct)
  case reach_ctor
  show ?case by (simp add: Person_ctor_def isInfected_def)
next
  case (reach_infect p d q)
  then show ?case
    by (auto simp: infect_def isInfected_def isRecovered_def updateState_def
        split: if_splits)
next
  case (reach_update p)
  then show ?case
    by (auto simp: isInfected_def isRecovered_def updateState_def Let_def)
qed

theorem C8_person_invariant_witness:
  "person_reachable (sick_for 1) \<and> isInfected (sick_for 1) \<and>
   0 < infectionDays (sick_for 1) \<and>
   isRecovered (updateState (sick_for 1)) \<and> infectionDays (updateState (sick_for 1)) = 0"
proof -
  have r: "person_reachable (sick_for 1)"
    by (rule reach_infect [OF reach_ctor, of 1])
      (simp add: infect_def Person_ctor_def sick_for_def)
  have i: "isInfected (sick_for 1)" by (simp add: isInfected_def sick_for_def)
  show ?thesis using C8_person_invariant [OF r] r i by (simp add: sick_for_def)
qed

text \<open>
  \<^bold>\<open>C9.\<close> \<^verbatim>\<open>infect(d)\<close> with \<open>d > 0\<close> on an infected or recovered person returns and
  changes neither its state nor its remaining days; and no sequence of
  \<^verbatim>\<open>updateState\<close> and \<^verbatim>\<open>infect\<close> calls (throwing ones included) changes a recovered
  person.
\<close>

theorem C9_recovered_terminal:
  "((isInfected p \<or> isRecovered p) \<and> 0 < d \<longrightarrow> infect d p = Inr p) \<and>
   (isRecovered p \<longrightarrow> person_run calls p = p)"
proof
  show "(isInfected p \<or> isRecovered p) \<and> 0 < d \<longrightarrow> infect d p = Inr p"
    by (auto simp: infect_def isInfected_def isRecovered_def)
next
  have step: "person_step c q = q" if "current q = ''recovered''" for c q
  proof (cases c)
    case CallUpdateState
    with that show ?thesis by (simp add: updateState_not_sick)
  next
    case (CallInfect d')
    with that show ?thesis by (simp add: state_after_infect_not_susceptible)
  qed
  have "current q = ''recovered'' \<Longrightarrow> person_run calls q = q" for q
    by (induction calls) (simp_all add: step)
  then show "isRecovered p \<longrightarrow> person_run calls p = p"
    by (simp add: isRecovered_def)
qed

theorem C9_recovered_terminal_witness:
  "isInfected (sick_for 2) \<and> infect 7 (sick_for 2) = Inr (sick_for 2) \<and>
   isRecovered recovered_person \<and> infect 7 recovered_person = Inr recovered_person \<and>
   person_run [CallInfect 3, CallUpdateState, CallInfect 0, CallUpdateState] recovered_person
     = recovered_person"
proof -
  have i: "isInfected (sick_for 2)" by (simp add: isInfected_def sick_for_def)
  have r: "isRecovered recovered_person" by (simp add: isRecovered_def recovered_person_def)
  show ?thesis
    using C9_recovered_terminal [of "sick_for 2" 7]
      C9_recovered_terminal [of recovered_person 7
        "[CallInfect 3, CallUpdateState, CallInfect 0, CallUpdateState]"] i r
    by simp
qed

section \<open>Random draws and the transmission loop\<close>

lemma uniform_int_in_range:
  "a \<le> b \<Longrightarrow> a \<le> fst (uniform_int_distribution a b g) \<and> fst (uniform_int_distribution a b g) \<le> b"
  by (simp add: uniform_int_distribution_def) (smt (verit) pos_mod_bound pos_mod_sign)

lemma uniform_int_draws:
  "intDraws (snd (uniform_int_distribution a b g)) = Suc (intDraws g)"
  by (simp add: uniform_int_distribution_def)

lemma uniform_real_draws:
  "intDraws (snd (uniform_real_distribution g)) = intDraws g"
  by (simp add: uniform_real_distribution_def)

lemma transmissionLoop_draws:
  "intDraws (snd (transmissionLoop i p g nl)) =
     intDraws g + nat (min (contactsPerDay p) (int (length (population p)) - 1) - i)"
proof (induction i p g nl rule: transmissionLoop.induct)
  case (1 i p gen newlyInfected)
  show ?case
  proof (cases "i < contactsPerDay p \<and> i < int (length (population p)) - 1")
    case False
    then show ?thesis by (subst transmissionLoop.simps) auto
  next
    case True
    obtain c g1 where d: "uniform_int_distribution 0 (int (length (population p)) - 1) gen = (c, g1)"
      by (cases "uniform_int_distribution 0 (int (length (population p)) - 1) gen")
    obtain u g2 where r: "uniform_real_distribution g1 = (u, g2)"
      by (cases "uniform_real_distribution g1")
    have g1: "intDraws g1 = Suc (intDraws gen)" using uniform_int_draws [of 0 "int (length (population p)) - 1" gen] d by simp
    have g2: "intDraws g2 = Suc (intDraws gen)" using uniform_real_draws [of g1] r g1 by simp
    have n: "nat (min (contactsPerDay p) (int (length (population p)) - 1) - i) =
       Suc (nat (min (contactsPerDay p) (int (length (population p)) - 1) - (i + 1)))"
      using True by auto
    show ?thesis
      using True d r g1 g2 n "1.IH"(1) [OF True d [symmetric] refl refl _ refl r [symmetric]]
        "1.IH"(2) [OF True d [symmetric] refl refl _ refl r [symmetric]]
        "1.IH"(3) [OF True d [symmetric] refl refl]
      by (subst transmissionLoop.simps) (auto simp: Let_def)
  qed
qed

lemma transmissionLoop_pushed:
  "0 \<le> i \<Longrightarrow> list_all (selectable p) nl \<Longrightarrow>
     list_all (selectable p) (fst (transmissionLoop i p g nl))"
proof (induction i p g nl rule: transmissionLoop.induct)
  case (1 i p gen newlyInfected)
  show ?case
  proof (cases "i < contactsPerDay p \<and> i < int (length (population p)) - 1")
    case False
    then show ?thesis using "1.prems" by (subst transmissionLoop.simps) auto
  next
    case True
    obtain c g1 where d: "uniform_int_distribution 0 (int (length (population p)) - 1) gen = (c, g1)"
      by (cases "uniform_int_distribution 0 (int (length (population p)) - 1) gen")
    obtain u g2 where r: "uniform_real_distribution g1 = (u, g2)"
      by (cases "uniform_real_distribution g1")
    have ne: "(0::int) \<le> int (length (population p)) - 1"
      using True "1.prems"(1) by linarith
    have "0 \<le> fst (c, g1) \<and> fst (c, g1) \<le> int (length (population p)) - 1"
      unfolding d [symmetric] by (rule uniform_int_in_range [OF ne])
    then have c: "nat c < length (population p)" by simp linarith
    have sel: "isSusceptible (population p ! nat c) \<Longrightarrow>
        list_all (selectable p) (newlyInfected @ [nat c])"
    proof -
      assume "isSusceptible (population p ! nat c)"
      with c have "selectable p (nat c)" by (simp add: selectable_def)
      with "1.prems"(2) show ?thesis by simp
    qed
    have nxt: "0 \<le> i + 1" using "1.prems"(1) by simp
    show ?thesis
      using True d r sel nxt "1.prems"(2)
        "1.IH"(1) [OF True d [symmetric] refl refl _ refl r [symmetric]]
        "1.IH"(2) [OF True d [symmetric] refl refl _ refl r [symmetric]]
        "1.IH"(3) [OF True d [symmetric] refl refl]
      by (subst transmissionLoop.simps) (auto simp: Let_def)
  qed
qed

lemma simulateTransmission_pushed:
  "list_all (selectable p) nl \<Longrightarrow> list_all (selectable p) (fst (simulateTransmission p rd nl))"
  by (simp add: simulateTransmission_def mt19937_ctor_def transmissionLoop_pushed)

lemma simulateTransmission_draws:
  "simulateTransmission p rd nl = (nl', rd') \<Longrightarrow>
   (\<exists>g g'. mt19937_ctor rd = (g, rd') \<and> transmissionLoop 0 p g nl = (nl', g'))"
  by (auto simp: simulateTransmission_def mt19937_ctor_def intro: prod.collapse [symmetric])

lemma simulateTransmission_seeds:
  "seedsUsed (snd (simulateTransmission p rd nl)) = Suc (seedsUsed rd)"
  by (simp add: simulateTransmission_def mt19937_ctor_def)

lemma isSusceptible_updateState [simp]: "isSusceptible (updateState x) = isSusceptible x"
  by (auto simp: isSusceptible_def updateState_def Let_def)

lemma updateState_susceptible: "isSusceptible x \<Longrightarrow> updateState x = x"
  by (simp add: isSusceptible_def updateState_def)

lemma selectable_update:
  "selectable (p\<lparr>population := (population p)[i := updateState (population p ! i)]\<rparr>) k
     = selectable p k"
  by (cases "k = i") (auto simp: selectable_def)

lemma dayLoop_state:
  "fst (dayLoop i p rd nl) =
     p\<lparr>population := take i (population p) @ map updateState (drop i (population p))\<rparr>"
proof (induction i p rd nl rule: dayLoop.induct)
  case (1 i p rd newlyInfected)
  show ?case
  proof (cases "i < length (population p)")
    case False
    then show ?thesis by (subst dayLoop.simps) simp
  next
    case True
    obtain n1 rd1 where s: "(if isInfected (population p ! i)
        then simulateTransmission p rd newlyInfected else (newlyInfected, rd)) = (n1, rd1)"
      by (cases "if isInfected (population p ! i)
        then simulateTransmission p rd newlyInfected else (newlyInfected, rd)")
    have t: "take (Suc i) ((population p)[i := updateState (population p ! i)]) =
        take i (population p) @ [updateState (population p ! i)]"
      using True by (simp add: take_Suc_conv_app_nth)
    have dr: "map updateState (drop i (population p)) =
        updateState (population p ! i) # map updateState (drop (Suc i) (population p))"
      using True by (simp add: Cons_nth_drop_Suc [symmetric])
    show ?thesis
      using True s "1.IH" [OF True refl s [symmetric] refl] t dr
      by (subst dayLoop.simps) (simp add: Let_def)
  qed
qed

lemma dayLoop_pushed:
  "list_all (selectable p) nl \<Longrightarrow> list_all (selectable p) (snd (snd (dayLoop i p rd nl)))"
proof (induction i p rd nl rule: dayLoop.induct)
  case (1 i p rd newlyInfected)
  show ?case
  proof (cases "i < length (population p)")
    case False
    then show ?thesis using "1.prems" by (subst dayLoop.simps) simp
  next
    case True
    obtain n1 rd1 where s: "(if isInfected (population p ! i)
        then simulateTransmission p rd newlyInfected else (newlyInfected, rd)) = (n1, rd1)"
      by (cases "if isInfected (population p ! i)
        then simulateTransmission p rd newlyInfected else (newlyInfected, rd)")
    have n1: "list_all (selectable p) n1"
      using s "1.prems" simulateTransmission_pushed [of p newlyInfected rd]
      by (auto split: if_splits)
    have eq: "selectable (p\<lparr>population := (population p)[i := updateState (population p ! i)]\<rparr>)
        = selectable p"
      by (rule ext) (rule selectable_update)
    show ?thesis
      using True s n1 "1.IH" [OF True refl s [symmetric] refl] eq
      by (subst dayLoop.simps) (simp add: Let_def)
  qed
qed

lemma dayLoop_seeds:
  "seedsUsed (fst (snd (dayLoop i p rd nl))) =
     seedsUsed rd + length (filter isInfected (drop i (population p)))"
proof (induction i p rd nl rule: dayLoop.induct)
  case (1 i p rd newlyInfected)
  show ?case
  proof (cases "i < length (population p)")
    case False
    then show ?thesis by (subst dayLoop.simps) simp
  next
    case True
    obtain n1 rd1 where s: "(if isInfected (population p ! i)
        then simulateTransmission p rd newlyInfected else (newlyInfected, rd)) = (n1, rd1)"
      by (cases "if isInfected (population p ! i)
        then simulateTransmission p rd newlyInfected else (newlyInfected, rd)")
    have rd1: "seedsUsed rd1 = seedsUsed rd + (if isInfected (population p ! i) then 1 else 0)"
      using s simulateTransmission_seeds [of p rd newlyInfected] by (auto split: if_splits)
    have dr: "drop i (population p) = population p ! i # drop (Suc i) (population p)"
      using True by (simp add: Cons_nth_drop_Suc)
    show ?thesis
      using True s rd1 "1.IH" [OF True refl s [symmetric] refl]
      by (subst dayLoop.simps, subst dr) (simp add: Let_def)
  qed
qed

lemma valid_status_updateState: "valid_status x \<Longrightarrow> valid_status (updateState x)"
  by (auto simp: valid_status_def isSusceptible_def isInfected_def isRecovered_def
      updateState_def Let_def)

lemma valid_status_infect: "valid_status x \<Longrightarrow> valid_status (state_after (infect d x))"
  by (auto simp: valid_status_def isSusceptible_def isInfected_def isRecovered_def
      infect_def state_after_def)

lemma infectPerson_throws:
  "infectionDuration p \<le> 0 \<Longrightarrow> infectPerson k p = Inl (InvalidArgument, p)"
  by (simp add: infectPerson_def infect_def)

lemma infectPerson_returns:
  "0 < infectionDuration p \<Longrightarrow>
   infectPerson k p =
     Inr (p\<lparr>population :=
            (population p)[k := state_after (infect (infectionDuration p) (population p ! k))]\<rparr>)"
  by (simp add: infectPerson_def infect_def state_after_def)

lemma infect_twice:
  "state_after (infect d (state_after (infect d x))) = state_after (infect d x)"
  by (simp add: infect_def state_after_def)

lemma infectLoop_throws:
  "infectionDuration p \<le> 0 \<Longrightarrow>
   infectLoop ks p = (if ks = [] then Inr p else Inl (InvalidArgument, p))"
  by (cases ks) (simp_all add: infectPerson_throws)

lemma infectLoop_returns:
  "0 < infectionDuration p \<Longrightarrow>
   \<exists>q. infectLoop ks p = Inr q \<and> q = p\<lparr>population := population q\<rparr> \<and>
       length (population q) = length (population p) \<and>
       (\<forall>j < length (population p).
          population q ! j =
            (if j \<in> set ks then state_after (infect (infectionDuration p) (population p ! j))
             else population p ! j))"
proof (induction ks arbitrary: p)
  case Nil
  then show ?case by simp
next
  case (Cons k ks)
  let ?d = "infectionDuration p"
  let ?p1 = "p\<lparr>population := (population p)[k := state_after (infect ?d (population p ! k))]\<rparr>"
  have d1: "0 < infectionDuration ?p1" using Cons.prems by simp
  obtain q where q: "infectLoop ks ?p1 = Inr q" "q = ?p1\<lparr>population := population q\<rparr>"
    "length (population q) = length (population ?p1)"
    "\<forall>j < length (population ?p1). population q ! j =
       (if j \<in> set ks then state_after (infect (infectionDuration ?p1) (population ?p1 ! j))
        else population ?p1 ! j)"
    using Cons.IH [OF d1] by blast
  have run: "infectLoop (k # ks) p = Inr q"
    using q(1) Cons.prems by (simp add: infectPerson_returns)
  have frame: "q = p\<lparr>population := population q\<rparr>"
    using q(2) by (metis (no_types, lifting) Population.surjective Population.update_convs(9))
  have len: "length (population q) = length (population p)" using q(3) by simp
  have each: "population q ! j =
      (if j \<in> set (k # ks) then state_after (infect ?d (population p ! j))
       else population p ! j)" if "j < length (population p)" for j
  proof (cases "j = k")
    case True
    with that q(4) show ?thesis by (simp add: infect_twice)
  next
    case False
    with that q(4) show ?thesis by simp
  qed
  show ?case using run frame len each by blast
qed

lemma countLoop_counts:
  "countInfected (countLoop xs p) = countInfected p + int (length (filter isInfected xs)) \<and>
   countSusceptible (countLoop xs p) =
     countSusceptible p + int (length (filter isSusceptible xs)) \<and>
   countRecovered (countLoop xs p) = countRecovered p + int (length (filter isRecovered xs))"
  by (induction xs arbitrary: p)
    (auto simp: isInfected_def isSusceptible_def isRecovered_def)

lemma countLoop_frame:
  "population (countLoop xs p) = population p \<and> size' (countLoop xs p) = size' p \<and>
   day (countLoop xs p) = day p \<and> infectionDuration (countLoop xs p) = infectionDuration p \<and>
   contactsPerDay (countLoop xs p) = contactsPerDay p \<and>
   infectionProbability (countLoop xs p) = infectionProbability p"
  by (induction xs arbitrary: p) auto

lemma updateCounts_counts:
  "countInfected (updateCounts p) = members_where isInfected p \<and>
   countSusceptible (updateCounts p) = members_where isSusceptible p \<and>
   countRecovered (updateCounts p) = members_where isRecovered p"
  by (simp add: updateCounts_def countLoop_counts members_where_def)

lemma updateCounts_frame:
  "population (updateCounts p) = population p \<and> size' (updateCounts p) = size' p \<and>
   day (updateCounts p) = day p \<and> infectionDuration (updateCounts p) = infectionDuration p \<and>
   contactsPerDay (updateCounts p) = contactsPerDay p \<and>
   infectionProbability (updateCounts p) = infectionProbability p"
  by (simp add: updateCounts_def countLoop_frame)

lemma partition_total:
  "list_all valid_status xs \<Longrightarrow>
   length (filter isSusceptible xs) + length (filter isInfected xs)
     + length (filter isRecovered xs) = length xs"
  by (induction xs)
    (auto simp: valid_status_def isInfected_def isSusceptible_def isRecovered_def)

lemma after_updates_eq:
  "after_updates rd p = p\<lparr>population := map updateState (population p)\<rparr>"
  by (simp add: after_updates_def dayLoop_state)

lemma simulateOneDay_eq:
  "simulateOneDay rd p =
     (case infectLoop (selected_today rd p) (after_updates rd p) of
        Inl e \<Rightarrow> Inl e
      | Inr p2 \<Rightarrow> Inr (updateCounts (p2\<lparr>day := day p2 + 1\<rparr>)))"
  by (simp add: simulateOneDay_def selected_today_def after_updates_def split: prod.splits)

lemma selected_today_selectable: "list_all (selectable p) (selected_today rd p)"
  by (simp add: selected_today_def dayLoop_pushed)

lemma list_all_update:
  "list_all P (xs[k := y])" if "list_all P xs" "k < length xs \<Longrightarrow> P y"
proof (cases "k < length xs")
  case True
  then show ?thesis using that by (auto simp: list_all_length nth_list_update)
next
  case False
  then have "xs[k := y] = xs" by (simp add: list_update_beyond)
  then show ?thesis using that(1) by simp
qed

lemma infectPerson_state:
  "state_after (infectPerson k p) =
     p\<lparr>population :=
         (population p)[k := state_after (infect (infectionDuration p) (population p ! k))]\<rparr>"
proof (cases "0 < infectionDuration p")
  case True
  then show ?thesis by (simp add: infectPerson_returns state_after_def)
next
  case False
  then have "infect (infectionDuration p) (population p ! k) = Inl (InvalidArgument, population p ! k)"
    by (simp add: infect_def)
  then show ?thesis by (simp add: infectPerson_def state_after_def)
qed

lemma infectPerson_inv: "pop_inv p \<Longrightarrow> pop_inv (state_after (infectPerson k p))"
proof -
  assume inv: "pop_inv p"
  have "list_all valid_status
      ((population p)[k := state_after (infect (infectionDuration p) (population p ! k))])"
  proof (rule list_all_update)
    show "list_all valid_status (population p)" using inv by (simp add: pop_inv_def)
  next
    assume "k < length (population p)"
    then have "valid_status (population p ! k)"
      using inv by (simp add: pop_inv_def list_all_length)
    then show "valid_status (state_after (infect (infectionDuration p) (population p ! k)))"
      by (rule valid_status_infect)
  qed
  then show ?thesis using inv unfolding infectPerson_state by (simp add: pop_inv_def)
qed

lemma after_updates_inv: "pop_inv p \<Longrightarrow> pop_inv (after_updates rd p)"
  by (auto simp: after_updates_eq pop_inv_def list_all_length valid_status_updateState)

lemma infectLoop_inv: "pop_inv p \<Longrightarrow> pop_inv (state_after (infectLoop ks p))"
proof (induction ks arbitrary: p)
  case Nil
  then show ?case by (simp add: state_after_def)
next
  case (Cons k ks)
  show ?case
  proof (cases "infectPerson k p")
    case (Inl e)
    then have "state_after (infectLoop (k # ks) p) = state_after (infectPerson k p)"
      by (simp add: state_after_def)
    then show ?thesis using infectPerson_inv [OF Cons.prems] by simp
  next
    case (Inr p1)
    then have "pop_inv p1" using infectPerson_inv [OF Cons.prems, of k] by (simp add: state_after_def)
    then show ?thesis using Inr Cons.IH by simp
  qed
qed

lemma updateCounts_inv:
  assumes "size' p = int (length (population p))" "list_all valid_status (population p)"
  shows "pop_inv (updateCounts p)"
proof -
  have "members_where isSusceptible p + members_where isInfected p + members_where isRecovered p
      = int (length (population p))"
    using partition_total [OF assms(2)] by (simp add: members_where_def)
  then show ?thesis using assms by (simp add: pop_inv_def updateCounts_counts updateCounts_frame)
qed

lemma simulateOneDay_inv:
  assumes "pop_inv p"
  shows "pop_inv (state_after (simulateOneDay rd p))"
proof -
  let ?r = "infectLoop (selected_today rd p) (after_updates rd p)"
  have inv: "pop_inv (state_after ?r)"
    by (rule infectLoop_inv [OF after_updates_inv [OF assms]])
  show ?thesis
  proof (cases ?r)
    case (Inl e)
    then show ?thesis using inv by (simp add: simulateOneDay_eq state_after_def)
  next
    case (Inr p2)
    then have "pop_inv p2" using inv by (simp add: state_after_def)
    then have "pop_inv (updateCounts (p2\<lparr>day := day p2 + 1\<rparr>))"
      by (intro updateCounts_inv) (simp_all add: pop_inv_def)
    then show ?thesis using Inr by (simp add: simulateOneDay_eq state_after_def)
  qed
qed

lemma infectRandomPerson_throw_state: "infectRandomPerson rd p = Inl (e, q) \<Longrightarrow> q = p"
  by (auto simp: infectRandomPerson_def mt19937_ctor_def uniform_int_distribution_def
      infectPerson_def Let_def split: if_splits sum.splits prod.splits)

lemma infectRandomPerson_index:
  assumes "size' p = int (length (population p))" "1 \<le> size' p"
  shows "\<exists>k < length (population p). infectRandomPerson rd p = infectPerson k p"
proof -
  obtain g rd1 where g: "mt19937_ctor rd = (g, rd1)" by (cases "mt19937_ctor rd")
  obtain c g1 where d: "uniform_int_distribution 0 (size' p - 1) g = (c, g1)"
    by (cases "uniform_int_distribution 0 (size' p - 1) g")
  have ne: "(0::int) \<le> size' p - 1" using assms(2) by simp
  have "0 \<le> fst (c, g1) \<and> fst (c, g1) \<le> size' p - 1"
    unfolding d [symmetric] by (rule uniform_int_in_range [OF ne])
  then have c: "nat c < length (population p)" using assms(1) by simp linarith
  have "infectRandomPerson rd p = infectPerson (nat c) p"
    using g d c assms(2) by (simp add: infectRandomPerson_def)
  with c show ?thesis by blast
qed

lemma infectRandomPerson_inv:
  assumes "pop_inv p" shows "pop_inv (state_after (infectRandomPerson rd p))"
proof (cases "1 \<le> size' p")
  case True
  then obtain k where "infectRandomPerson rd p = infectPerson k p"
    using infectRandomPerson_index [of p rd] assms by (auto simp: pop_inv_def)
  then show ?thesis using infectPerson_inv [OF assms] by simp
next
  case False
  then obtain g rd1 where g: "mt19937_ctor rd = (g, rd1)" by (cases "mt19937_ctor rd")
  have "infectRandomPerson rd p = Inl (UndefinedBehaviour, p)"
    using False g by (simp add: infectRandomPerson_def)
  then show ?thesis using assms by (simp add: state_after_def)
qed

lemma Population_ctor_inv: "Population_ctor n = Inr p \<Longrightarrow> pop_inv p"
  by (auto simp: Population_ctor_def pop_inv_def list_all_length valid_status_def
      Person_ctor_def isSusceptible_def split: if_splits)

lemma reachable_inv: "pop_reachable p \<Longrightarrow> pop_inv p"
proof (induction rule: pop_reachable.induct)
  case (reach_new n p)
  then show ?case by (rule Population_ctor_inv)
next
  case (reach_setProbability p x)
  then show ?case by (simp add: pop_inv_def setInfectionProbability_def)
next
  case (reach_setContacts p c)
  then show ?case by (simp add: pop_inv_def setContactsPerDay_def)
next
  case (reach_setDuration p d)
  then show ?case by (simp add: pop_inv_def setInfectionDuration_def)
next
  case (reach_seed p rd q)
  then show ?case using infectRandomPerson_inv [of p rd] by (simp add: state_after_def)
next
  case (reach_seed_throw p rd q)
  then show ?case using infectRandomPerson_inv [of p rd] by (simp add: state_after_def)
next
  case (reach_day p rd q)
  then show ?case using simulateOneDay_inv [of p rd] by (simp add: state_after_def)
next
  case (reach_day_throw p rd q)
  then show ?case using simulateOneDay_inv [of p rd] by (simp add: state_after_def)
qed

section \<open>Concrete populations\<close>

lemma Population_ctor_2:
  "Population_ctor 2 = Inr \<lparr>size' = 2, day = 0, countInfected = 0,
       countSusceptible = 2, countRecovered = 0, infectionProbability = 0, contactsPerDay = 0,
       infectionDuration = 0, population = [Person_ctor, Person_ctor]\<rparr>"
  by (simp add: Population_ctor_def eval_nat_numeral)

lemma seeding_2:
  "0 < d \<Longrightarrow>
   infectRandomPerson (constant_device 0 0)
     (setInfectionProbability pr (setInfectionDuration d
        (setContactsPerDay c (projr (Population_ctor 2))))) =
   Inr \<lparr>size' = 2, day = 0, countInfected = 0, countSusceptible = 2, countRecovered = 0,
        infectionProbability = pr, contactsPerDay = c, infectionDuration = d,
        population = [sick_for d, Person_ctor]\<rparr>"
  by (simp add: Population_ctor_2 setInfectionDuration_def setContactsPerDay_def
      setInfectionProbability_def
      infectRandomPerson_def mt19937_ctor_def constant_device_def uniform_int_distribution_def
      infectPerson_def infect_def Person_ctor_def sick_for_def)

lemma seeded_eq:
  "0 < d \<Longrightarrow>
   seeded pr c d =
     \<lparr>size' = 2, day = 0, countInfected = 0, countSusceptible = 2, countRecovered = 0,
      infectionProbability = pr, contactsPerDay = c, infectionDuration = d,
      population = [sick_for d, Person_ctor]\<rparr>"
  by (simp add: seeded_def seeding_2 state_after_def)

lemma seeded_reachable: "0 < d \<Longrightarrow> pop_reachable (seeded pr c d)"
proof -
  assume d: "0 < d"
  have "pop_reachable (projr (Population_ctor 2))"
    by (rule reach_new [of 2]) (simp add: Population_ctor_2)
  then have "pop_reachable (setInfectionProbability pr (setInfectionDuration d
        (setContactsPerDay c (projr (Population_ctor 2)))))"
    by (intro reach_setProbability reach_setDuration reach_setContacts)
  then show ?thesis
    by (rule reach_seed [where rd = "constant_device 0 0"])
      (simp add: seeding_2 [OF d] seeded_eq [OF d])
qed

lemma one_day:
  "0 < d \<Longrightarrow> 0 \<le> u \<Longrightarrow> u < 1 \<Longrightarrow> u \<le> pr \<Longrightarrow>
   simulateOneDay (constant_device 1 u) (seeded pr 1 d) =
     Inr \<lparr>size' = 2, day = 1, countInfected = (if d = 1 then 1 else 2), countSusceptible = 0,
          countRecovered = (if d = 1 then 1 else 0),
          infectionProbability = pr, contactsPerDay = 1, infectionDuration = d,
          population = [updateState (sick_for d), sick_for d]\<rparr> \<and>
   selected_today (constant_device 1 u) (seeded pr 1 d) = [1]"
  apply (simp add: simulateOneDay_eq selected_today_def after_updates_eq seeded_eq)
  apply (simp add: dayLoop.simps simulateTransmission_def mt19937_ctor_def transmissionLoop.simps
      constant_device_def uniform_int_distribution_def uniform_real_distribution_def
      isSusceptible_def isInfected_def Person_ctor_def sick_for_def Let_def frac_eq)
  apply (simp add: infectPerson_def infect_def updateCounts_def isSusceptible_def
      isInfected_def isRecovered_def updateState_def)
  done

section \<open>The partition invariant\<close>

text \<open>
  \<^bold>\<open>C4.\<close> In every reachable state of a population (after construction and after any
  sequence of setter, seeding and day-advance calls, calls that threw included) the three
  cached counts add up to the population size, which is the number of members.
\<close>

theorem C4_counts_sum_to_size:
  assumes "pop_reachable p"
  shows "getSusceptibleCount p + getInfectedCount p + getRecoveredCount p = getPopulationSize p
         \<and> getPopulationSize p = int (length (population p))"
  using reachable_inv [OF assms]
  by (simp add: pop_inv_def getSusceptibleCount_def getInfectedCount_def getRecoveredCount_def
      getPopulationSize_def)

theorem C4_counts_sum_to_size_witness:
  "pop_reachable (seeded 1 1 3) \<and>
   getSusceptibleCount (seeded 1 1 3) + getInfectedCount (seeded 1 1 3)
     + getRecoveredCount (seeded 1 1 3) = 2 \<and>
   (\<exists>q. simulateOneDay (constant_device 1 0) (seeded 1 1 3) = Inr q \<and> pop_reachable q \<and>
        getSusceptibleCount q + getInfectedCount q + getRecoveredCount q = 2 \<and>
        getPopulationSize q = 2)"
proof -
  let ?q = "\<lparr>size' = 2, day = 1, countInfected = 2, countSusceptible = 0,
          countRecovered = 0, infectionProbability = 1, contactsPerDay = 1,
          infectionDuration = 3, population = [updateState (sick_for 3), sick_for 3]\<rparr>"
  have r: "pop_reachable (seeded 1 1 3)" by (rule seeded_reachable) simp
  have day: "simulateOneDay (constant_device 1 0) (seeded 1 1 3) = Inr ?q"
    using one_day [of 3 0 1] by simp
  have rq: "pop_reachable ?q" by (rule reach_day [OF r day])
  have sz: "getPopulationSize (seeded 1 1 3) = 2" "getPopulationSize ?q = 2"
    by (simp_all add: getPopulationSize_def seeded_eq)
  show ?thesis
    using C4_counts_sum_to_size [OF r] C4_counts_sum_to_size [OF rq] r rq day sz by simp
qed

section \<open>One day of simulation\<close>

lemma simulateOneDay_returns:
  assumes "simulateOneDay rd p = Inr q"
  shows "\<exists>p2. infectLoop (selected_today rd p) (after_updates rd p) = Inr p2 \<and>
           population q = population p2 \<and>
           (selected_today rd p = [] \<or> 0 < infectionDuration p)"
proof -
  obtain p2 where p2: "infectLoop (selected_today rd p) (after_updates rd p) = Inr p2"
    "q = updateCounts (p2\<lparr>day := day p2 + 1\<rparr>)"
    using assms by (auto simp: simulateOneDay_eq split: sum.splits)
  have "selected_today rd p = [] \<or> 0 < infectionDuration p"
  proof (rule ccontr)
    assume "\<not> ?thesis"
    then have "selected_today rd p \<noteq> []" "infectionDuration (after_updates rd p) \<le> 0"
      by (simp_all add: after_updates_eq)
    then show False using p2(1) infectLoop_throws [of "after_updates rd p"] by simp
  qed
  then show ?thesis using p2 by (simp add: updateCounts_frame)
qed

lemma simulateOneDay_total:
  assumes "0 < infectionDuration p"
  shows "\<exists>q. simulateOneDay rd p = Inr q"
proof -
  have "0 < infectionDuration (after_updates rd p)" using assms by (simp add: after_updates_eq)
  from infectLoop_returns [OF this, of "selected_today rd p"]
  obtain p2 where "infectLoop (selected_today rd p) (after_updates rd p) = Inr p2" by blast
  then show ?thesis by (simp add: simulateOneDay_eq)
qed

lemma end_of_day_member:
  assumes "simulateOneDay rd p = Inr q" "k < length (population p)"
  shows "population q ! k =
     (if k \<in> set (selected_today rd p)
      then state_after (infect (infectionDuration p) (updateState (population p ! k)))
      else updateState (population p ! k))"
proof -
  let ?a = "after_updates rd p"
  obtain p2 where p2: "infectLoop (selected_today rd p) ?a = Inr p2"
    "population q = population p2" "selected_today rd p = [] \<or> 0 < infectionDuration p"
    using simulateOneDay_returns [OF assms(1)] by blast
  have ak: "population ?a ! k = updateState (population p ! k)" "k < length (population ?a)"
    "infectionDuration ?a = infectionDuration p"
    using assms(2) by (simp_all add: after_updates_eq)
  show ?thesis
  proof (cases "0 < infectionDuration p")
    case True
    then have "0 < infectionDuration ?a" by (simp add: ak)
    from infectLoop_returns [OF this, of "selected_today rd p"] p2(1) ak(2)
    have "population p2 ! k =
        (if k \<in> set (selected_today rd p)
         then state_after (infect (infectionDuration ?a) (population ?a ! k))
         else population ?a ! k)"
      by auto
    then show ?thesis by (simp add: p2(2) ak)
  next
    case False
    then have e: "selected_today rd p = []" using p2(3) by simp
    then have "p2 = ?a" using p2(1) by simp
    then show ?thesis using e by (simp add: p2(2) ak)
  qed
qed

text \<open>
  \<^bold>\<open>C2.\<close> \<^verbatim>\<open>simulateOneDay\<close> returns whenever the infection duration is positive. When
  it returns, every member selected for transmission during the call was susceptible
  at its start, is still susceptible once all countdown updates are done, and ends the
  call infected with the full configured duration as its remaining days. A member that
  recovered in the call's update pass is not among the selected ones and ends the call
  recovered.
\<close>

theorem C2_infection_after_updates:
  "(0 < infectionDuration p \<longrightarrow> (\<exists>q. simulateOneDay rd p = Inr q)) \<and>
   (\<forall>q. simulateOneDay rd p = Inr q \<longrightarrow>
      (\<forall>k \<in> set (selected_today rd p).
          k < length (population p) \<and> isSusceptible (population p ! k) \<and>
          isSusceptible (population (after_updates rd p) ! k) \<and>
          isInfected (population q ! k) \<and>
          infectionDays (population q ! k) = infectionDuration p) \<and>
      (\<forall>k < length (population p).
          isInfected (population p ! k) \<and> isRecovered (population (after_updates rd p) ! k)
          \<longrightarrow> isRecovered (population q ! k) \<and> k \<notin> set (selected_today rd p)))"
proof (intro conjI allI impI ballI)
  assume "0 < infectionDuration p"
  then show "\<exists>q. simulateOneDay rd p = Inr q" by (rule simulateOneDay_total)
next
  fix q k
  assume run: "simulateOneDay rd p = Inr q" and k: "k \<in> set (selected_today rd p)"
  have sel: "selectable p k"
    using selected_today_selectable [of p rd] k by (simp add: list_all_iff)
  then show "k < length (population p)" "isSusceptible (population p ! k)"
    by (simp_all add: selectable_def)
  then show "isSusceptible (population (after_updates rd p) ! k)"
    by (simp add: after_updates_eq)
  have d: "0 < infectionDuration p"
    using simulateOneDay_returns [OF run] k by auto
  have "population q ! k = state_after (infect (infectionDuration p) (population p ! k))"
    using end_of_day_member [OF run, of k] k sel
    by (simp add: selectable_def updateState_susceptible)
  then show "isInfected (population q ! k)"
    "infectionDays (population q ! k) = infectionDuration p"
    using d sel by (simp_all add: selectable_def isSusceptible_def isInfected_def infect_def
        state_after_def)
next
  fix q k
  assume run: "simulateOneDay rd p = Inr q" and k: "k < length (population p)"
    and rec: "isInfected (population p ! k) \<and> isRecovered (population (after_updates rd p) ! k)"
  have notsel: "k \<notin> set (selected_today rd p)"
  proof
    assume "k \<in> set (selected_today rd p)"
    then have "selectable p k"
      using selected_today_selectable [of p rd] by (simp add: list_all_iff)
    then show False using rec by (simp add: selectable_def isSusceptible_def isInfected_def)
  qed
  then have "population q ! k = population (after_updates rd p) ! k"
    using end_of_day_member [OF run k] k by (simp add: after_updates_eq)
  then show "isRecovered (population q ! k)" using rec by simp
  show "k \<notin> set (selected_today rd p)" by (rule notsel)
qed

theorem C2_infection_after_updates_witness:
  "(\<exists>q. simulateOneDay (constant_device 1 (1/2)) (seeded 1 1 1) = Inr q \<and>
        isInfected (population q ! 1) \<and> infectionDays (population q ! 1) = 1 \<and>
        isRecovered (population q ! 0)) \<and>
   1 \<in> set (selected_today (constant_device 1 (1/2)) (seeded 1 1 1)) \<and>
   isSusceptible (population (seeded 1 1 1) ! 1) \<and>
   isInfected (population (seeded 1 1 1) ! 0) \<and>
   isRecovered (population (after_updates (constant_device 1 (1/2)) (seeded 1 1 1)) ! 0)"
proof -
  let ?rd = "constant_device 1 (1/2)" and ?p = "seeded 1 1 1"
  let ?q = "\<lparr>size' = 2, day = 1, countInfected = 1, countSusceptible = 0,
          countRecovered = 1, infectionProbability = 1, contactsPerDay = 1,
          infectionDuration = 1, population = [updateState (sick_for 1), sick_for 1]\<rparr>"
  have d: "infectionDuration ?p = 1" by (simp add: seeded_eq)
  have day: "simulateOneDay ?rd ?p = Inr ?q" and sel: "selected_today ?rd ?p = [1]"
    using one_day [of 1 "1/2" 1] by simp_all
  have start: "isSusceptible (population ?p ! 1)" "isInfected (population ?p ! 0)"
    "0 < length (population ?p)"
    by (simp_all add: seeded_eq isSusceptible_def isInfected_def Person_ctor_def sick_for_def)
  have mid: "isRecovered (population (after_updates ?rd ?p) ! 0)"
    by (simp add: after_updates_eq seeded_eq isRecovered_def updateState_def sick_for_def)
  have new: "\<forall>k \<in> set (selected_today ?rd ?p).
      isInfected (population ?q ! k) \<and> infectionDays (population ?q ! k) = infectionDuration ?p"
    and old: "\<forall>k < length (population ?p).
      isInfected (population ?p ! k) \<and> isRecovered (population (after_updates ?rd ?p) ! k)
        \<longrightarrow> isRecovered (population ?q ! k)"
    using C2_infection_after_updates [of ?p ?rd] day by blast+
  have one: "isInfected (population ?q ! 1) \<and> infectionDays (population ?q ! 1) = 1"
    using new sel d by simp
  have zero: "isRecovered (population ?q ! 0)"
    using old start(2,3) mid by blast
  show ?thesis using day sel one zero start(1,2) mid by simp
qed

section \<open>How many contacts an infected member makes\<close>

text \<open>The members selected on one day are at most \<open>min contactsPerDay (N - 1)\<close> for each
  member infected at the start of the day: every push follows one contact draw, and the
  loop of \<^verbatim>\<open>simulateTransmission\<close> stops at \<^verbatim>\<open>i < size - 1\<close> as well as at
  \<^verbatim>\<open>i < contactsPerDay\<close>.\<close>

lemma transmissionLoop_length:
  "length (fst (transmissionLoop i p g nl)) \<le>
     length nl + nat (min (contactsPerDay p) (int (length (population p)) - 1) - i)"
proof (induction i p g nl rule: transmissionLoop.induct)
  case (1 i p gen newlyInfected)
  show ?case
  proof (cases "i < contactsPerDay p \<and> i < int (length (population p)) - 1")
    case False
    then show ?thesis by (subst transmissionLoop.simps) auto
  next
    case True
    obtain c g1 where d: "uniform_int_distribution 0 (int (length (population p)) - 1) gen = (c, g1)"
      by (cases "uniform_int_distribution 0 (int (length (population p)) - 1) gen")
    obtain u g2 where r: "uniform_real_distribution g1 = (u, g2)"
      by (cases "uniform_real_distribution g1")
    have n: "nat (min (contactsPerDay p) (int (length (population p)) - 1) - i) =
       Suc (nat (min (contactsPerDay p) (int (length (population p)) - 1) - (i + 1)))"
      using True by auto
    show ?thesis
      using True d r n "1.IH"(1) [OF True d [symmetric] refl refl _ refl r [symmetric]]
        "1.IH"(2) [OF True d [symmetric] refl refl _ refl r [symmetric]]
        "1.IH"(3) [OF True d [symmetric] refl refl]
      by (subst transmissionLoop.simps) (auto simp: Let_def)
  qed
qed

lemma simulateTransmission_length:
  "length (fst (simulateTransmission p rd nl)) \<le>
     length nl + nat (min (contactsPerDay p) (int (length (population p)) - 1))"
  using transmissionLoop_length [of 0 p _ nl]
  by (simp add: simulateTransmission_def mt19937_ctor_def)

lemma dayLoop_length:
  "length (snd (snd (dayLoop i p rd nl))) \<le>
     length nl + length (filter isInfected (drop i (population p)))
       * nat (min (contactsPerDay p) (int (length (population p)) - 1))"
proof (induction i p rd nl rule: dayLoop.induct)
  case (1 i p rd newlyInfected)
  let ?m = "nat (min (contactsPerDay p) (int (length (population p)) - 1))"
  show ?case
  proof (cases "i < length (population p)")
    case False
    then show ?thesis by (subst dayLoop.simps) simp
  next
    case True
    obtain n1 rd1 where s: "(if isInfected (population p ! i)
        then simulateTransmission p rd newlyInfected else (newlyInfected, rd)) = (n1, rd1)"
      by (cases "if isInfected (population p ! i)
        then simulateTransmission p rd newlyInfected else (newlyInfected, rd)")
    have n1: "length n1 \<le> length newlyInfected + (if isInfected (population p ! i) then ?m else 0)"
      using s simulateTransmission_length [of p rd newlyInfected] by (auto split: if_splits)
    have dr: "drop i (population p) = population p ! i # drop (Suc i) (population p)"
      using True by (simp add: Cons_nth_drop_Suc)
    have ih: "length (snd (snd (dayLoop (Suc i)
         (p\<lparr>population := (population p)[i := updateState (population p ! i)]\<rparr>) rd1 n1))) \<le>
        length n1 + length (filter isInfected (drop (Suc i) (population p))) * ?m"
      using "1.IH" [OF True refl s [symmetric] refl] by simp
    have step: "snd (snd (dayLoop i p rd newlyInfected)) = snd (snd (dayLoop (Suc i)
         (p\<lparr>population := (population p)[i := updateState (population p ! i)]\<rparr>) rd1 n1))"
      using True s by (subst dayLoop.simps) (simp add: Let_def)
    show ?thesis
      unfolding step using ih n1 by (subst dr) (auto simp: algebra_simps)
  qed
qed

lemma selected_today_length:
  "length (selected_today rd p) \<le>
     length (filter isInfected (population p))
       * nat (min (contactsPerDay p) (int (length (population p)) - 1))"
  using dayLoop_length [of 0 p rd "[]"] by (simp add: selected_today_def)

text \<open>Two members, member 0 infected, probability 1 and 5 contacts per day: for every
  random device the day selects member 1 once or nobody, by the single contact draw.\<close>

lemma selected_today_two_members:
  "selected_today rd (seeded 1 5 3) =
     (if fst (seeds rd (seedsUsed rd)) 0 mod 2 = 1 then [1] else [])"
  apply (simp add: selected_today_def seeded_eq)
  apply (simp add: dayLoop.simps simulateTransmission_def mt19937_ctor_def transmissionLoop.simps
        uniform_int_distribution_def uniform_real_distribution_def
        isSusceptible_def isInfected_def Person_ctor_def sick_for_def Let_def)
  apply (auto simp: nth_Cons' less_imp_le [OF frac_lt_1])
   apply presburger+
  done

text \<open>
  \<^bold>\<open>C3.\<close> The code at a reachable input where the claim fails: two members, member 0
  infected and member 1 susceptible, \<open>contactsPerDay = 5\<close>, infection probability 1.
  The claim gives the infected member five contact draws. The loop of
  \<^verbatim>\<open>simulateTransmission\<close> makes exactly one integer draw, whatever the generator, because
  of its second bound \<^verbatim>\<open>i < size - 1\<close>; and over the whole day, for every random device,
  the selected members are member 1 once (when that one draw picks it) or nobody. With
  the device that always draws index 1, five draws would push member 1 five times; the
  code pushes it once.
\<close>

theorem C3_contact_draws_capped:
  "pop_reachable (seeded 1 5 3) \<and> contactsPerDay (seeded 1 5 3) = 5 \<and>
   infectionProbability (seeded 1 5 3) = 1 \<and> length (population (seeded 1 5 3)) = 2 \<and>
   isInfected (population (seeded 1 5 3) ! 0) \<and>
   isSusceptible (population (seeded 1 5 3) ! 1) \<and>
   (\<forall>gen newlyInfected.
      intDraws (snd (transmissionLoop 0 (seeded 1 5 3) gen newlyInfected)) = intDraws gen + 1) \<and>
   (\<forall>rd. selected_today rd (seeded 1 5 3) =
      (if fst (seeds rd (seedsUsed rd)) 0 mod 2 = 1 then [1] else [])) \<and>
   selected_today (constant_device 1 0) (seeded 1 5 3) = [1]"
proof -
  have r: "pop_reachable (seeded 1 5 3)" by (rule seeded_reachable) simp
  have f: "contactsPerDay (seeded 1 5 3) = 5" "infectionProbability (seeded 1 5 3) = 1"
    "length (population (seeded 1 5 3)) = 2" "isInfected (population (seeded 1 5 3) ! 0)"
    "isSusceptible (population (seeded 1 5 3) ! 1)"
    by (simp_all add: seeded_eq isInfected_def isSusceptible_def sick_for_def Person_ctor_def)
  have d: "intDraws (snd (transmissionLoop 0 (seeded 1 5 3) gen nl)) = intDraws gen + 1"
    for gen nl
    using transmissionLoop_draws [of 0 "seeded 1 5 3" gen nl] f by simp
  have c: "selected_today (constant_device 1 0) (seeded 1 5 3) = [1]"
    by (simp add: selected_today_two_members constant_device_def)
  show ?thesis using r f d c selected_today_two_members by simp
qed

section \<open>Which calls throw\<close>

lemma infectRandomPerson_returns:
  assumes "pop_reachable p" "1 \<le> size' p" "0 < infectionDuration p"
  shows "\<exists>k < length (population p). infectRandomPerson rd p =
     Inr (p\<lparr>population :=
            (population p)[k := state_after (infect (infectionDuration p) (population p ! k))]\<rparr>)"
proof -
  have "size' p = int (length (population p))"
    using reachable_inv [OF assms(1)] by (simp add: pop_inv_def)
  from infectRandomPerson_index [OF this assms(2), of rd]
  show ?thesis using infectPerson_returns [OF assms(3)] by auto
qed

lemma infectRandomPerson_throws:
  assumes "pop_reachable p" "1 \<le> size' p" "infectionDuration p \<le> 0"
  shows "infectRandomPerson rd p = Inl (InvalidArgument, p)"
proof -
  have "size' p = int (length (population p))"
    using reachable_inv [OF assms(1)] by (simp add: pop_inv_def)
  from infectRandomPerson_index [OF this assms(2), of rd]
  show ?thesis using infectPerson_throws [OF assms(3)] by auto
qed

lemma simulateOneDay_throws:
  assumes "infectionDuration p \<le> 0"
  shows "simulateOneDay rd p =
     (if selected_today rd p = []
      then Inr (updateCounts ((after_updates rd p)\<lparr>day := day p + 1\<rparr>))
      else Inl (InvalidArgument, after_updates rd p))"
proof -
  have "infectionDuration (after_updates rd p) \<le> 0" using assms by (simp add: after_updates_eq)
  from infectLoop_throws [OF this, of "selected_today rd p"]
  show ?thesis by (simp add: simulateOneDay_eq after_updates_eq)
qed

text \<open>
  \<^bold>\<open>C7\<close> (as amended). Construction with a size \<open>\<ge> 0\<close> returns. On a reachable population
  of size \<open>\<ge> 1\<close> whose infection duration is positive, \<^verbatim>\<open>infectRandomPerson\<close> returns, and
  \<^verbatim>\<open>simulateOneDay\<close> returns on any population whose infection duration is positive.
  With an infection duration \<open>\<le> 0\<close> (the constructor leaves it 0),
  \<^verbatim>\<open>infectRandomPerson\<close> throws \<^verbatim>\<open>std::invalid_argument\<close> and leaves the population as
  it was, and \<^verbatim>\<open>simulateOneDay\<close> throws it exactly when a member was selected for
  transmission, after the update pass. The setters and the getters have no failing
  branch. As stated, for any call order and with unset configuration, the claim fails.
\<close>

theorem C7_no_throw_when_configured:
  "(0 \<le> n \<longrightarrow> (\<exists>p. Population_ctor n = Inr p)) \<and>
   (pop_reachable p \<and> 1 \<le> size' p \<and> 0 < infectionDuration p \<longrightarrow>
      (\<exists>q. infectRandomPerson rd p = Inr q)) \<and>
   (0 < infectionDuration p \<longrightarrow> (\<exists>q. simulateOneDay rd p = Inr q)) \<and>
   (pop_reachable p \<and> 1 \<le> size' p \<and> infectionDuration p \<le> 0 \<longrightarrow>
      infectRandomPerson rd p = Inl (InvalidArgument, p)) \<and>
   (infectionDuration p \<le> 0 \<and> selected_today rd p = [] \<longrightarrow>
      (\<exists>q. simulateOneDay rd p = Inr q)) \<and>
   (infectionDuration p \<le> 0 \<and> selected_today rd p \<noteq> [] \<longrightarrow>
      simulateOneDay rd p = Inl (InvalidArgument, after_updates rd p))"
proof (intro conjI impI)
  assume "0 \<le> n"
  then show "\<exists>p. Population_ctor n = Inr p" by (simp add: Population_ctor_def)
next
  assume "pop_reachable p \<and> 1 \<le> size' p \<and> 0 < infectionDuration p"
  then show "\<exists>q. infectRandomPerson rd p = Inr q"
    using infectRandomPerson_returns [of p rd] by blast
next
  assume "0 < infectionDuration p"
  then show "\<exists>q. simulateOneDay rd p = Inr q" by (rule simulateOneDay_total)
next
  assume "pop_reachable p \<and> 1 \<le> size' p \<and> infectionDuration p \<le> 0"
  then show "infectRandomPerson rd p = Inl (InvalidArgument, p)"
    using infectRandomPerson_throws [of p rd] by blast
next
  assume "infectionDuration p \<le> 0 \<and> selected_today rd p = []"
  then show "\<exists>q. simulateOneDay rd p = Inr q" by (simp add: simulateOneDay_throws)
next
  assume "infectionDuration p \<le> 0 \<and> selected_today rd p \<noteq> []"
  then show "simulateOneDay rd p = Inl (InvalidArgument, after_updates rd p)"
    by (simp add: simulateOneDay_throws)
qed

theorem C7_no_throw_when_configured_witness:
  "(\<exists>p. Population_ctor 2 = Inr p) \<and>
   pop_reachable (seeded 1 1 3) \<and> 1 \<le> size' (seeded 1 1 3) \<and>
   0 < infectionDuration (seeded 1 1 3) \<and>
   (\<exists>q. infectRandomPerson (constant_device 1 0) (seeded 1 1 3) = Inr q) \<and>
   (\<exists>q. simulateOneDay (constant_device 1 0) (seeded 1 1 3) = Inr q) \<and>
   pop_reachable (setInfectionDuration 0 (seeded 1 1 3)) \<and>
   infectRandomPerson (constant_device 1 0) (setInfectionDuration 0 (seeded 1 1 3)) =
     Inl (InvalidArgument, setInfectionDuration 0 (seeded 1 1 3)) \<and>
   selected_today (constant_device 1 0) (setInfectionDuration 0 (seeded 1 1 3)) \<noteq> [] \<and>
   simulateOneDay (constant_device 1 0) (setInfectionDuration 0 (seeded 1 1 3)) =
     Inl (InvalidArgument,
          after_updates (constant_device 1 0) (setInfectionDuration 0 (seeded 1 1 3))) \<and>
   selected_today (constant_device 0 0) (setInfectionDuration 0 (seeded 1 1 3)) = [] \<and>
   (\<exists>q. simulateOneDay (constant_device 0 0) (setInfectionDuration 0 (seeded 1 1 3)) = Inr q)"
proof -
  let ?p = "seeded 1 1 3" and ?z = "setInfectionDuration 0 (seeded 1 1 3)"
  have r: "pop_reachable ?p" by (rule seeded_reachable) simp
  have rz: "pop_reachable ?z" by (rule reach_setDuration [OF r])
  have f: "1 \<le> size' ?p" "0 < infectionDuration ?p" "1 \<le> size' ?z" "infectionDuration ?z \<le> 0"
    by (simp_all add: seeded_eq setInfectionDuration_def)
  have s1: "selected_today (constant_device 1 0) ?z \<noteq> []"
    by (simp add: selected_today_def seeded_eq setInfectionDuration_def dayLoop.simps
        simulateTransmission_def mt19937_ctor_def transmissionLoop.simps
        constant_device_def uniform_int_distribution_def uniform_real_distribution_def
        isSusceptible_def isInfected_def Person_ctor_def sick_for_def Let_def)
  have s0: "selected_today (constant_device 0 0) ?z = []"
    by (simp add: selected_today_def seeded_eq setInfectionDuration_def dayLoop.simps
        simulateTransmission_def mt19937_ctor_def transmissionLoop.simps
        constant_device_def uniform_int_distribution_def uniform_real_distribution_def
        isSusceptible_def isInfected_def Person_ctor_def sick_for_def Let_def)
  show ?thesis
    using C7_no_throw_when_configured [of 2 ?p "constant_device 1 0"]
      C7_no_throw_when_configured [of 2 ?z "constant_device 1 0"]
      C7_no_throw_when_configured [of 2 ?z "constant_device 0 0"]
      r rz f s1 s0
    by simp
qed

theorem C7_no_throw_when_configured_counterexample:
  "\<exists>p. Population_ctor 10 = Inr p \<and>
       infectRandomPerson (constant_device 0 0) p = Inl (InvalidArgument, p)"
  by (simp add: Population_ctor_def infectRandomPerson_def mt19937_ctor_def
      constant_device_def uniform_int_distribution_def infectPerson_def infect_def)

section \<open>Transmission with probability 0\<close>

text \<open>
  \<^bold>\<open>C10.\<close> The code at a reachable input where the claim fails: the infection
  probability is 0, the contact draw picks the susceptible member 1 and the real draw
  is 0. The test \<^verbatim>\<open>probDis(gen) <= infectionProbability\<close> holds, so member 1 is selected
  and ends the day infected.
\<close>

theorem C10_zero_probability_infects:
  "pop_reachable (seeded 0 1 3) \<and> infectionProbability (seeded 0 1 3) = 0 \<and>
   isSusceptible (population (seeded 0 1 3) ! 1) \<and>
   selected_today (constant_device 1 0) (seeded 0 1 3) = [1] \<and>
   (\<exists>q. simulateOneDay (constant_device 1 0) (seeded 0 1 3) = Inr q \<and>
        isInfected (population q ! 1) \<and> infectionDays (population q ! 1) = 3)"
proof -
  have r: "pop_reachable (seeded 0 1 3)" by (rule seeded_reachable) simp
  have s: "infectionProbability (seeded 0 1 3) = 0"
    "isSusceptible (population (seeded 0 1 3) ! 1)"
    by (simp_all add: seeded_eq isSusceptible_def Person_ctor_def)
  show ?thesis
    using r s one_day [of 3 0 0] by (simp add: isInfected_def sick_for_def)
qed

section \<open>The cached counts after seeding\<close>

lemma filter_single_out:
  assumes "k < n"
  shows "length (filter P ((replicate n c)[k := x])) =
     (if P c then n - 1 else 0) + (if P x then 1 else 0)"
proof -
  have "(replicate n c)[k := x] = replicate k c @ x # replicate (n - Suc k) c"
    using assms by (simp add: upd_conv_take_nth_drop min_def)
  then show ?thesis using assms by (auto simp: filter_replicate)
qed

lemma simulateTransmission_quiet:
  "contactsPerDay p \<le> 0 \<Longrightarrow> fst (simulateTransmission p rd nl) = nl"
  by (simp add: simulateTransmission_def mt19937_ctor_def transmissionLoop.simps)

lemma dayLoop_quiet:
  "contactsPerDay p \<le> 0 \<Longrightarrow> snd (snd (dayLoop i p rd nl)) = nl"
proof (induction i p rd nl rule: dayLoop.induct)
  case (1 i p rd newlyInfected)
  show ?case
  proof (cases "i < length (population p)")
    case False
    then show ?thesis by (subst dayLoop.simps) simp
  next
    case True
    obtain n1 rd1 where s: "(if isInfected (population p ! i)
        then simulateTransmission p rd newlyInfected else (newlyInfected, rd)) = (n1, rd1)"
      by (cases "if isInfected (population p ! i)
        then simulateTransmission p rd newlyInfected else (newlyInfected, rd)")
    have n1: "n1 = newlyInfected"
      using s simulateTransmission_quiet [OF "1.prems", of rd newlyInfected]
      by (auto split: if_splits)
    show ?thesis
      using True s n1 "1.prems" "1.IH" [OF True refl s [symmetric] refl]
      by (subst dayLoop.simps) (simp add: Let_def)
  qed
qed

lemma quiet_day:
  assumes "contactsPerDay p \<le> 0"
  shows "simulateOneDay rd p =
     Inr (updateCounts (p\<lparr>population := map updateState (population p), day := day p + 1\<rparr>))"
  using dayLoop_quiet [OF assms, of 0 rd "[]"]
  by (simp add: simulateOneDay_eq selected_today_def after_updates_eq)

lemma members_where_updateCounts [simp]:
  "members_where P (updateCounts p) = members_where P p"
  by (simp add: members_where_def updateCounts_frame)

text \<open>One day without contacts in a population whose members are all susceptible but
  the one at index \<open>k\<close>.\<close>

lemma quiet_day_single:
  assumes "contactsPerDay p \<le> 0" "population p = (replicate n Person_ctor)[k := x]" "k < n"
  shows "\<exists>q. simulateOneDay rd p = Inr q \<and> contactsPerDay q = contactsPerDay p \<and>
     population q = (replicate n Person_ctor)[k := updateState x] \<and>
     getSusceptibleCount q = int n - 1 + (if isSusceptible (updateState x) then 1 else 0) \<and>
     getInfectedCount q = (if isInfected (updateState x) then 1 else 0) \<and>
     getRecoveredCount q = (if isRecovered (updateState x) then 1 else 0)"
proof -
  define q where
    "q = updateCounts (p\<lparr>population := map updateState (population p), day := day p + 1\<rparr>)"
  have run: "simulateOneDay rd p = Inr q"
    unfolding q_def by (rule quiet_day [OF assms(1)])
  have c: "updateState Person_ctor = Person_ctor"
    by (simp add: updateState_def Person_ctor_def)
  have pop: "population q = (replicate n Person_ctor)[k := updateState x]"
    unfolding q_def using assms(2) by (simp add: updateCounts_frame map_update c)
  have cpd: "contactsPerDay q = contactsPerDay p"
    unfolding q_def by (simp add: updateCounts_frame)
  have mw: "members_where P q =
      int ((if P Person_ctor then n - 1 else 0) + (if P (updateState x) then 1 else 0))" for P
    unfolding members_where_def pop by (simp only: filter_single_out [OF assms(3)])
  have n: "int (n - 1) = int n - 1" using assms(3) by simp
  have "getSusceptibleCount q = members_where isSusceptible q"
    unfolding q_def by (simp add: getSusceptibleCount_def updateCounts_counts)
  then have cs: "getSusceptibleCount q =
      int n - 1 + (if isSusceptible (updateState x) then 1 else 0)"
    using n by (simp add: mw isSusceptible_def Person_ctor_def)
  have "getInfectedCount q = members_where isInfected q"
    unfolding q_def by (simp add: getInfectedCount_def updateCounts_counts)
  then have ci: "getInfectedCount q = (if isInfected (updateState x) then 1 else 0)"
    by (simp add: mw isInfected_def Person_ctor_def)
  have "getRecoveredCount q = members_where isRecovered q"
    unfolding q_def by (simp add: getRecoveredCount_def updateCounts_counts)
  then have cr: "getRecoveredCount q = (if isRecovered (updateState x) then 1 else 0)"
    by (simp add: mw isRecovered_def Person_ctor_def)
  show ?thesis using run cpd pop cs ci cr by blast
qed

text \<open>
  \<^bold>\<open>C1.\<close> The code at an input where the claim fails: a population of 10 with infection
  duration 3, seeded once. Whatever the random device yields, one member is infected
  and nine are susceptible afterwards, but \<^verbatim>\<open>getInfectedCount()\<close> is still 0 and
  \<^verbatim>\<open>getSusceptibleCount()\<close> still 10: \<^verbatim>\<open>infectRandomPerson\<close> does not call
  \<^verbatim>\<open>updateCounts\<close>.
\<close>

theorem C1_counts_stale_after_seeding:
  "\<exists>p0. Population_ctor 10 = Inr p0 \<and>
     (\<forall>rd. \<exists>q. infectRandomPerson rd (setInfectionDuration 3 p0) = Inr q \<and>
        getInfectedCount q = 0 \<and> members_where isInfected q = 1 \<and>
        getSusceptibleCount q = 10 \<and> members_where isSusceptible q = 9)"
proof -
  obtain p0 where p0: "Population_ctor 10 = Inr p0"
    by (simp add: Population_ctor_def)
  let ?p = "setInfectionDuration 3 p0"
  have r: "pop_reachable ?p" by (intro reach_setDuration reach_new [OF p0])
  have f: "size' ?p = 10" "infectionDuration ?p = 3" "countInfected ?p = 0"
    "countSusceptible ?p = 10" "population ?p = replicate 10 Person_ctor"
    using p0 by (auto simp: Population_ctor_def setInfectionDuration_def)
  have "\<exists>q. infectRandomPerson rd ?p = Inr q \<and>
        getInfectedCount q = 0 \<and> members_where isInfected q = 1 \<and>
        getSusceptibleCount q = 10 \<and> members_where isSusceptible q = 9" for rd
  proof -
    obtain k where k: "k < 10" "infectRandomPerson rd ?p =
       Inr (?p\<lparr>population :=
            (replicate 10 Person_ctor)[k := state_after (infect 3 (replicate 10 Person_ctor ! k))]\<rparr>)"
      using infectRandomPerson_returns [OF r, of rd] f by auto
    have x: "state_after (infect 3 (replicate 10 Person_ctor ! k)) = sick_for 3"
      using k(1) by (simp add: infect_def state_after_def Person_ctor_def sick_for_def)
    have k2: "infectRandomPerson rd ?p =
       Inr (?p\<lparr>population := (replicate 10 Person_ctor)[k := sick_for 3]\<rparr>)"
      using k(2) by (simp only: x)
    have s: "isSusceptible Person_ctor" "\<not> isInfected Person_ctor"
      "\<not> isSusceptible (sick_for 3)" "isInfected (sick_for 3)"
      by (simp_all add: isSusceptible_def isInfected_def Person_ctor_def sick_for_def)
    show ?thesis
      using k(1) f s
      by (simp add: k2 getInfectedCount_def getSusceptibleCount_def members_where_def
          filter_single_out)
  qed
  with p0 show ?thesis by blast
qed

text \<open>
  \<^bold>\<open>C5.\<close> The scenario run on the code, for every outcome of the random draws: 10
  members, infection duration 3, no contacts, one seeding, three days. The counts read
  \<open>S=10, I=0, R=0\<close> after the seeding (the claim says \<open>S=9, I=1, R=0\<close>), then
  \<open>S=9, I=1, R=0\<close> after the first and the second day and \<open>S=9, I=0, R=1\<close> after the
  third, as the claim says.
\<close>

theorem C5_scenario_counts:
  "\<exists>p0. Population_ctor 10 = Inr p0 \<and>
     (\<forall>rd0 rd1 rd2 rd3. \<exists>p1 p2 p3 p4.
        infectRandomPerson rd0 (setContactsPerDay 0 (setInfectionDuration 3 p0)) = Inr p1 \<and>
        getSusceptibleCount p1 = 10 \<and> getInfectedCount p1 = 0 \<and> getRecoveredCount p1 = 0 \<and>
        simulateOneDay rd1 p1 = Inr p2 \<and>
        getSusceptibleCount p2 = 9 \<and> getInfectedCount p2 = 1 \<and> getRecoveredCount p2 = 0 \<and>
        simulateOneDay rd2 p2 = Inr p3 \<and>
        getSusceptibleCount p3 = 9 \<and> getInfectedCount p3 = 1 \<and> getRecoveredCount p3 = 0 \<and>
        simulateOneDay rd3 p3 = Inr p4 \<and>
        getSusceptibleCount p4 = 9 \<and> getInfectedCount p4 = 0 \<and> getRecoveredCount p4 = 1)"
proof -
  obtain p0 where p0: "Population_ctor 10 = Inr p0"
    by (simp add: Population_ctor_def)
  let ?p = "setContactsPerDay 0 (setInfectionDuration 3 p0)"
  have r: "pop_reachable ?p" by (intro reach_setContacts reach_setDuration reach_new [OF p0])
  have f: "size' ?p = 10" "infectionDuration ?p = 3" "countInfected ?p = 0"
    "countSusceptible ?p = 10" "countRecovered ?p = 0" "contactsPerDay ?p = 0"
    "population ?p = replicate 10 Person_ctor"
    using p0 by (auto simp: Population_ctor_def setInfectionDuration_def setContactsPerDay_def)
  have u: "updateState (sick_for 3) = sick_for 2" "updateState (sick_for 2) = sick_for 1"
    "updateState (sick_for 1) = recovered_person"
    by (simp_all add: updateState_def sick_for_def recovered_person_def)
  have s: "\<not> isSusceptible (sick_for d)" "isInfected (sick_for d)" "\<not> isRecovered (sick_for d)"
    "\<not> isSusceptible recovered_person" "\<not> isInfected recovered_person"
    "isRecovered recovered_person" for d
    by (simp_all add: isSusceptible_def isInfected_def isRecovered_def sick_for_def
        recovered_person_def)
  have "\<exists>p1 p2 p3 p4.
        infectRandomPerson rd0 ?p = Inr p1 \<and>
        getSusceptibleCount p1 = 10 \<and> getInfectedCount p1 = 0 \<and> getRecoveredCount p1 = 0 \<and>
        simulateOneDay rd1 p1 = Inr p2 \<and>
        getSusceptibleCount p2 = 9 \<and> getInfectedCount p2 = 1 \<and> getRecoveredCount p2 = 0 \<and>
        simulateOneDay rd2 p2 = Inr p3 \<and>
        getSusceptibleCount p3 = 9 \<and> getInfectedCount p3 = 1 \<and> getRecoveredCount p3 = 0 \<and>
        simulateOneDay rd3 p3 = Inr p4 \<and>
        getSusceptibleCount p4 = 9 \<and> getInfectedCount p4 = 0 \<and> getRecoveredCount p4 = 1"
    for rd0 rd1 rd2 rd3
  proof -
    obtain k where k: "k < 10" "infectRandomPerson rd0 ?p =
       Inr (?p\<lparr>population :=
            (replicate 10 Person_ctor)[k := state_after (infect 3 (replicate 10 Person_ctor ! k))]\<rparr>)"
      using infectRandomPerson_returns [OF r, of rd0] f by auto
    have x: "state_after (infect 3 (replicate 10 Person_ctor ! k)) = sick_for 3"
      using k(1) by (simp add: infect_def state_after_def Person_ctor_def sick_for_def)
    let ?p1 = "?p\<lparr>population := (replicate 10 Person_ctor)[k := sick_for 3]\<rparr>"
    have d0: "infectRandomPerson rd0 ?p = Inr ?p1" using k(2) by (simp only: x)
    have c1: "getSusceptibleCount ?p1 = 10" "getInfectedCount ?p1 = 0" "getRecoveredCount ?p1 = 0"
      "contactsPerDay ?p1 \<le> 0" "population ?p1 = (replicate 10 Person_ctor)[k := sick_for 3]"
      using f by (simp_all add: getSusceptibleCount_def getInfectedCount_def getRecoveredCount_def)
    obtain p2 where p2: "simulateOneDay rd1 ?p1 = Inr p2" "contactsPerDay p2 \<le> 0"
      "population p2 = (replicate 10 Person_ctor)[k := sick_for 2]"
      "getSusceptibleCount p2 = 9" "getInfectedCount p2 = 1" "getRecoveredCount p2 = 0"
      using quiet_day_single [OF c1(4) c1(5) k(1), of rd1] c1(4) by (auto simp: u s)
    obtain p3 where p3: "simulateOneDay rd2 p2 = Inr p3" "contactsPerDay p3 \<le> 0"
      "population p3 = (replicate 10 Person_ctor)[k := sick_for 1]"
      "getSusceptibleCount p3 = 9" "getInfectedCount p3 = 1" "getRecoveredCount p3 = 0"
      using quiet_day_single [OF p2(2) p2(3) k(1), of rd2] p2(2) by (auto simp: u s)
    obtain p4 where p4: "simulateOneDay rd3 p3 = Inr p4"
      "getSusceptibleCount p4 = 9" "getInfectedCount p4 = 0" "getRecoveredCount p4 = 1"
      using quiet_day_single [OF p3(2) p3(3) k(1), of rd3] by (auto simp: u s)
    show ?thesis using d0 c1(1-3) p2 p3 p4 by blast
  qed
  with p0 show ?thesis by blast
qed

text \<open>After a day advance that returns, the cached counts are the partition of the
  members by state.\<close>

lemma counts_exact_after_day:
  assumes "simulateOneDay rd p = Inr q"
  shows "getSusceptibleCount q = members_where isSusceptible q \<and>
         getInfectedCount q = members_where isInfected q \<and>
         getRecoveredCount q = members_where isRecovered q"
proof -
  obtain p2 where "q = updateCounts (p2\<lparr>day := day p2 + 1\<rparr>)"
    using assms by (auto simp: simulateOneDay_eq split: sum.splits)
  then show ?thesis
    by (simp add: getSusceptibleCount_def getInfectedCount_def getRecoveredCount_def
        updateCounts_counts members_where_def updateCounts_frame)
qed

end
